theory Spec2Isabelle
  imports Complex_Main
begin

section \<open>Term graph model\<close>

text \<open>
  The expression graph of \<^verbatim>\<open>ibis/backends/sql/rewrites.py\<close>. Nodes are immutable and
  compared structurally, so a node class becomes a constructor and the class hierarchy
  (\<^verbatim>\<open>ops.Value\<close>, \<^verbatim>\<open>ops.Relation\<close>, \<^verbatim>\<open>ops.Impure\<close>, ...) becomes predicates on constructors.
  Interning is structural equality of terms.
\<close>

datatype scalar = SNull | SBool bool | SInt int | SFloat real | SStr string

datatype error = UnsupportedOperationError string | KeyError

datatype set_kind = UnionK | IntersectionK | DifferenceK

datatype node =
    DatabaseTable string "string list"
  | Project node "(string \<times> node) list"
  | Filter node "node list"
  | Sort node "node list"
  | Limit node "nat option" nat
  | Sample node real "int option"
  | Aggregate node "(string \<times> node) list" "(string \<times> node) list"
  | JoinChain node "node list" "(string \<times> node) list"
  | JoinLink string node "node list"
  | SetOp set_kind node node bool
  | View node string
  | Select node "(string \<times> node) list" "node list" "node list"
  | CTE node
  | Field node string
  | Literal scalar
  | ScalarParameter nat
  | SortKey node bool
  | WindowBoundary node bool
  | WindowFunction node string "node option" "node option" "node list" "node list"
  | First node "node option"
  | Last node "node option"
  | FirstValue node
  | LastValue node
  | ExistsSubquery node
  | InSubquery node node
  | ScalarSubquery node
  | Unnest node
  | RandomScalar
  | CountStar node
  | CountDistinctStar node
  | LessEqual node node
  | ValueOp string "node list"

subsection \<open>Class hierarchy as predicates\<close>

text \<open>\<^verbatim>\<open>isinstance(node, ops.Value)\<close>: every scalar or column expression, sort keys and window
  boundaries included. Join links are plain nodes, neither values nor relations.\<close>

fun is_Value :: "node \<Rightarrow> bool" where
  "is_Value (Field _ _) = True"
| "is_Value (Literal _) = True"
| "is_Value (ScalarParameter _) = True"
| "is_Value (SortKey _ _) = True"
| "is_Value (WindowBoundary _ _) = True"
| "is_Value (WindowFunction _ _ _ _ _ _) = True"
| "is_Value (First _ _) = True"
| "is_Value (Last _ _) = True"
| "is_Value (FirstValue _) = True"
| "is_Value (LastValue _) = True"
| "is_Value (ExistsSubquery _) = True"
| "is_Value (InSubquery _ _) = True"
| "is_Value (ScalarSubquery _) = True"
| "is_Value (Unnest _) = True"
| "is_Value RandomScalar = True"
| "is_Value (CountStar _) = True"
| "is_Value (CountDistinctStar _) = True"
| "is_Value (LessEqual _ _) = True"
| "is_Value (ValueOp _ _) = True"
| "is_Value _ = False"

fun is_Field :: "node \<Rightarrow> bool" where
  "is_Field (Field _ _) = True"
| "is_Field _ = False"

fun is_Select :: "node \<Rightarrow> bool" where
  "is_Select (Select _ _ _ _) = True"
| "is_Select _ = False"

fun is_CTE :: "node \<Rightarrow> bool" where
  "is_CTE (CTE _) = True"
| "is_CTE _ = False"

fun is_View :: "node \<Rightarrow> bool" where
  "is_View (View _ _) = True"
| "is_View _ = False"

text \<open>The tuple \<^verbatim>\<open>blocking\<close> of \<^verbatim>\<open>merge_select_select\<close>: window functions, EXISTS and IN
  subqueries, unnest, and the impure values (\<^verbatim>\<open>RandomScalar\<close> is the impure operation of
  this model).\<close>

fun is_blocking :: "node \<Rightarrow> bool" where
  "is_blocking (WindowFunction _ _ _ _ _ _) = True"
| "is_blocking (ExistsSubquery _) = True"
| "is_blocking (InSubquery _ _) = True"
| "is_blocking (Unnest _) = True"
| "is_blocking RandomScalar = True"
| "is_blocking _ = False"

text \<open>The tuples \<^verbatim>\<open>cte_types\<close> and \<^verbatim>\<open>dont_count\<close> of \<^verbatim>\<open>extract_ctes\<close>.\<close>

fun is_cte_type :: "node \<Rightarrow> bool" where
  "is_cte_type (Select _ _ _ _) = True"
| "is_cte_type (Aggregate _ _ _) = True"
| "is_cte_type (JoinChain _ _ _) = True"
| "is_cte_type (SetOp _ _ _ _) = True"
| "is_cte_type (Limit _ _ _) = True"
| "is_cte_type (Sample _ _ _) = True"
| "is_cte_type _ = False"

fun dont_count :: "node \<Rightarrow> bool" where
  "dont_count (Field _ _) = True"
| "dont_count (CountStar _) = True"
| "dont_count (CountDistinctStar _) = True"
| "dont_count _ = False"

subsection \<open>Arguments of a node\<close>

text \<open>\<^verbatim>\<open>node.__children__\<close>: the node-valued arguments in declaration order, tuples and
  dictionary values flattened, absent optional arguments skipped.\<close>

fun opt_list :: "'a option \<Rightarrow> 'a list" where
  "opt_list None = []"
| "opt_list (Some x) = [x]"

fun children :: "node \<Rightarrow> node list" where
  "children (DatabaseTable _ _) = []"
| "children (Project p vs) = p # map snd vs"
| "children (Filter p ps) = p # ps"
| "children (Sort p ks) = p # ks"
| "children (Limit p _ _) = [p]"
| "children (Sample p _ _) = [p]"
| "children (Aggregate p gs ms) = p # map snd gs @ map snd ms"
| "children (JoinChain t ls vs) = t # ls @ map snd vs"
| "children (JoinLink _ t ps) = t # ps"
| "children (SetOp _ l r _) = [l, r]"
| "children (View p _) = [p]"
| "children (Select p ss ps ks) = p # map snd ss @ ps @ ks"
| "children (CTE p) = [p]"
| "children (Field r _) = [r]"
| "children (Literal _) = []"
| "children (ScalarParameter _) = []"
| "children (SortKey e _) = [e]"
| "children (WindowBoundary v _) = [v]"
| "children (WindowFunction f _ s e gs os) = f # opt_list s @ opt_list e @ gs @ os"
| "children (First a w) = a # opt_list w"
| "children (Last a w) = a # opt_list w"
| "children (FirstValue a) = [a]"
| "children (LastValue a) = [a]"
| "children (ExistsSubquery r) = [r]"
| "children (InSubquery r v) = [r, v]"
| "children (ScalarSubquery r) = [r]"
| "children (Unnest a) = [a]"
| "children RandomScalar = []"
| "children (CountStar r) = [r]"
| "children (CountDistinctStar r) = [r]"
| "children (LessEqual a b) = [a, b]"
| "children (ValueOp _ as) = as"

text \<open>\<^verbatim>\<open>node.__recreate__(kwargs)\<close> where \<^verbatim>\<open>kwargs\<close> holds the arguments with every child
  node \<^verbatim>\<open>c\<close> replaced by \<^verbatim>\<open>f c\<close>: the node of the same class over the rewritten children.\<close>

fun map_args :: "(node \<Rightarrow> node) \<Rightarrow> node \<Rightarrow> node" where
  "map_args f (DatabaseTable n cs) = DatabaseTable n cs"
| "map_args f (Project p vs) = Project (f p) (map (map_prod id f) vs)"
| "map_args f (Filter p ps) = Filter (f p) (map f ps)"
| "map_args f (Sort p ks) = Sort (f p) (map f ks)"
| "map_args f (Limit p n k) = Limit (f p) n k"
| "map_args f (Sample p fr sd) = Sample (f p) fr sd"
| "map_args f (Aggregate p gs ms) =
     Aggregate (f p) (map (map_prod id f) gs) (map (map_prod id f) ms)"
| "map_args f (JoinChain t ls vs) = JoinChain (f t) (map f ls) (map (map_prod id f) vs)"
| "map_args f (JoinLink h t ps) = JoinLink h (f t) (map f ps)"
| "map_args f (SetOp k l r d) = SetOp k (f l) (f r) d"
| "map_args f (View p n) = View (f p) n"
| "map_args f (Select p ss ps ks) =
     Select (f p) (map (map_prod id f) ss) (map f ps) (map f ks)"
| "map_args f (CTE p) = CTE (f p)"
| "map_args f (Field r n) = Field (f r) n"
| "map_args f (Literal v) = Literal v"
| "map_args f (ScalarParameter i) = ScalarParameter i"
| "map_args f (SortKey e a) = SortKey (f e) a"
| "map_args f (WindowBoundary v p) = WindowBoundary (f v) p"
| "map_args f (WindowFunction fn h s e gs os) =
     WindowFunction (f fn) h (map_option f s) (map_option f e) (map f gs) (map f os)"
| "map_args f (First a w) = First (f a) (map_option f w)"
| "map_args f (Last a w) = Last (f a) (map_option f w)"
| "map_args f (FirstValue a) = FirstValue (f a)"
| "map_args f (LastValue a) = LastValue (f a)"
| "map_args f (ExistsSubquery r) = ExistsSubquery (f r)"
| "map_args f (InSubquery r v) = InSubquery (f r) (f v)"
| "map_args f (ScalarSubquery r) = ScalarSubquery (f r)"
| "map_args f (Unnest a) = Unnest (f a)"
| "map_args f RandomScalar = RandomScalar"
| "map_args f (CountStar r) = CountStar (f r)"
| "map_args f (CountDistinctStar r) = CountDistinctStar (f r)"
| "map_args f (LessEqual a b) = LessEqual (f a) (f b)"
| "map_args f (ValueOp n as) = ValueOp n (map f as)"

subsection \<open>Size and congruence facts used by the traversals\<close>

lemma sum_list_size_le: "sum_list (map (\<lambda>x. 2 * f x + 1) xs) \<le> 2 * size_list f xs"
  by (induction xs) auto

lemma sum_list_snd_size_le:
  "sum_list (map (\<lambda>kv. 2 * size (snd kv) + 1) (kvs :: (string \<times> node) list))
     \<le> 2 * size_list (size_prod (\<lambda>_. 0) size) kvs"
  by (induction kvs) auto

lemma sum_list_opt_size_le:
  "sum_list (map (\<lambda>x. 2 * size x + 1) (opt_list (w :: node option))) \<le> 2 * size_option size w"
  by (cases w) auto

lemma children_size_sum: "sum_list (map (\<lambda>c. 2 * size c + 1) (children n)) \<le> 2 * size n"
proof (cases n)
  case (Project p vs)
  then show ?thesis using sum_list_snd_size_le [of vs] by (simp add: comp_def)
next
  case (Filter p ps)
  then show ?thesis using sum_list_size_le [of size ps] by simp
next
  case (Sort p ks)
  then show ?thesis using sum_list_size_le [of size ks] by simp
next
  case (Aggregate p gs ms)
  then show ?thesis using sum_list_snd_size_le [of gs] sum_list_snd_size_le [of ms]
    by (simp add: comp_def)
next
  case (JoinChain t ls vs)
  then show ?thesis using sum_list_snd_size_le [of vs] sum_list_size_le [of size ls]
    by (simp add: comp_def)
next
  case (JoinLink h t ps)
  then show ?thesis using sum_list_size_le [of size ps] by simp
next
  case (Select p ss ps ks)
  then show ?thesis
    using sum_list_snd_size_le [of ss] sum_list_size_le [of size ps] sum_list_size_le [of size ks]
    by (simp add: comp_def)
next
  case (WindowFunction f h s e gs os)
  then show ?thesis
    using sum_list_opt_size_le [of s] sum_list_opt_size_le [of e]
      sum_list_size_le [of size gs] sum_list_size_le [of size os]
    by simp
next
  case (First a w)
  then show ?thesis using sum_list_opt_size_le [of w] by simp
next
  case (Last a w)
  then show ?thesis using sum_list_opt_size_le [of w] by simp
next
  case (ValueOp nm as)
  then show ?thesis using sum_list_size_le [of size as] by simp
qed simp_all

lemma child_size: "c \<in> set (children n) \<Longrightarrow> size c < size n"
proof -
  assume "c \<in> set (children n)"
  then have "2 * size c + 1 \<le> sum_list (map (\<lambda>c. 2 * size c + 1) (children n))"
    using member_le_sum_list [of "2 * size c + 1" "map (\<lambda>c. 2 * size c + 1) (children n)"] by auto
  then show ?thesis using children_size_sum [of n] by simp
qed

lemma opt_list_map_option: "opt_list (map_option f w) = map f (opt_list w)"
  by (cases w) simp_all

lemma children_map_args: "children (map_args f n) = map f (children n)"
  by (cases n) (simp_all add: comp_def opt_list_map_option)


lemma map_prod_snd_cong:
  "(\<And>c. c \<in> snd ` set kvs \<Longrightarrow> f c = g c) \<Longrightarrow> map (map_prod id f) kvs = map (map_prod id g) kvs"
  by (induction kvs) auto

lemma map_option_opt_cong:
  "(\<And>c. c \<in> set (opt_list w) \<Longrightarrow> f c = g c) \<Longrightarrow> map_option f w = map_option g w"
  by (cases w) auto

lemma map_args_cong0:
  "(\<And>c. c \<in> set (children m) \<Longrightarrow> f c = g c) \<Longrightarrow> map_args f m = map_args g m"
  by (cases m) (auto intro!: map_prod_snd_cong map_option_opt_cong map_cong simp: rev_image_eqI)

lemma map_args_cong [fundef_cong]:
  assumes "n = m" and "\<And>c. c \<in> set (children m) \<Longrightarrow> f c = g c"
  shows "map_args f n = map_args g m"
  unfolding assms(1) by (rule map_args_cong0) (rule assms(2))

section \<open>Lowering rules\<close>

text \<open>A rewrite rule is a pattern with a replacement function: \<open>None\<close> when the pattern does
  not match the node, otherwise the replacement or the exception it raises.\<close>

type_synonym rule = "node \<Rightarrow> (error + node) option"

text \<open>\<^verbatim>\<open>first_to_firstvalue\<close>, matching \<^verbatim>\<open>p.WindowFunction(p.First | p.Last)\<close>;
  \<^verbatim>\<open>_.copy(func=...)\<close> keeps every other argument of the window function.\<close>

fun first_to_firstvalue :: rule where
  "first_to_firstvalue (WindowFunction (First arg wh) how s e gs os) =
     Some (if wh \<noteq> None
           then Inl (UnsupportedOperationError
                  ''`first` with `where` is unsupported in a window function'')
           else Inr (WindowFunction (FirstValue arg) how s e gs os))"
| "first_to_firstvalue (WindowFunction (Last arg wh) how s e gs os) =
     Some (if wh \<noteq> None
           then Inl (UnsupportedOperationError
                  ''`last` with `where` is unsupported in a window function'')
           else Inr (WindowFunction (LastValue arg) how s e gs os))"
| "first_to_firstvalue _ = None"

text \<open>\<^verbatim>\<open>rewrite_sample_as_filter\<close>, matching \<^verbatim>\<open>p.Sample\<close>. The fraction, a Python float, is
  coerced to a literal by the constructor of \<^verbatim>\<open>ops.LessEqual\<close>.\<close>

fun rewrite_sample_as_filter :: rule where
  "rewrite_sample_as_filter (Sample parent fraction seed) =
     Some (if seed \<noteq> None
           then Inl (UnsupportedOperationError
                  ''`Table.sample` with a random seed is unsupported'')
           else Inr (Filter parent [LessEqual RandomScalar (Literal (SFloat fraction))]))"
| "rewrite_sample_as_filter _ = None"

section \<open>Properties\<close>

text \<open>C7: lowering a window function over First or Last raises UnsupportedOperation when the
  function's \<^verbatim>\<open>where\<close> filter is present, and otherwise replaces the function with
  FirstValue(arg) or LastValue(arg) respectively.\<close>

theorem first_to_firstvalue_where:
  "first_to_firstvalue (WindowFunction (First arg (Some w)) how s e gs os)
     = Some (Inl (UnsupportedOperationError
          ''`first` with `where` is unsupported in a window function''))
   \<and> first_to_firstvalue (WindowFunction (Last arg (Some w)) how s e gs os)
     = Some (Inl (UnsupportedOperationError
          ''`last` with `where` is unsupported in a window function''))
   \<and> first_to_firstvalue (WindowFunction (First arg None) how s e gs os)
     = Some (Inr (WindowFunction (FirstValue arg) how s e gs os))
   \<and> first_to_firstvalue (WindowFunction (Last arg None) how s e gs os)
     = Some (Inr (WindowFunction (LastValue arg) how s e gs os))"
  by simp

text \<open>C8: the sample-as-filter rule raises UnsupportedOperation when the seed is present, and
  with no seed rewrites Sample(parent, fraction, seed) into
  Filter(parent, RandomScalar() <= fraction).\<close>

theorem rewrite_sample_as_filter_seed:
  "rewrite_sample_as_filter (Sample parent fraction (Some seed))
     = Some (Inl (UnsupportedOperationError
          ''`Table.sample` with a random seed is unsupported''))
   \<and> rewrite_sample_as_filter (Sample parent fraction None)
     = Some (Inr (Filter parent [LessEqual RandomScalar (Literal (SFloat fraction))]))"
  by simp

text \<open>C10: when the first/last rule succeeds, the result is the same window function with
  only its function replaced: the frame kind, both frame bounds, the grouping keys and the
  ordering keys are those of the input.\<close>

theorem first_to_firstvalue_frame:
  assumes "first_to_firstvalue (WindowFunction func how s e gs os) = Some (Inr r)"
  shows "\<exists>func'. r = WindowFunction func' how s e gs os \<and> func' \<noteq> func"
  using assms by (cases func) (auto split: if_splits)

theorem first_to_firstvalue_frame_witness:
  "first_to_firstvalue
     (WindowFunction (First (Field (DatabaseTable ''t'' [''x'']) ''x'') None) ''rows'' None
        (Some (WindowBoundary (Literal (SInt 0)) True))
        [Field (DatabaseTable ''t'' [''x'']) ''x'']
        [SortKey (Field (DatabaseTable ''t'' [''x'']) ''x'') True])
     = Some (Inr (WindowFunction (FirstValue (Field (DatabaseTable ''t'' [''x'']) ''x'')) ''rows''
        None (Some (WindowBoundary (Literal (SInt 0)) True))
        [Field (DatabaseTable ''t'' [''x'']) ''x'']
        [SortKey (Field (DatabaseTable ''t'' [''x'']) ''x'') True]))
   \<and> (\<exists>func'. WindowFunction (FirstValue (Field (DatabaseTable ''t'' [''x'']) ''x'')) ''rows''
        None (Some (WindowBoundary (Literal (SInt 0)) True))
        [Field (DatabaseTable ''t'' [''x'']) ''x'']
        [SortKey (Field (DatabaseTable ''t'' [''x'']) ''x'') True]
      = WindowFunction func' ''rows'' None (Some (WindowBoundary (Literal (SInt 0)) True))
        [Field (DatabaseTable ''t'' [''x'']) ''x'']
        [SortKey (Field (DatabaseTable ''t'' [''x'']) ''x'') True]
      \<and> func' \<noteq> First (Field (DatabaseTable ''t'' [''x'']) ''x'') None)"
proof -
  have h: "first_to_firstvalue
     (WindowFunction (First (Field (DatabaseTable ''t'' [''x'']) ''x'') None) ''rows'' None
        (Some (WindowBoundary (Literal (SInt 0)) True))
        [Field (DatabaseTable ''t'' [''x'']) ''x'']
        [SortKey (Field (DatabaseTable ''t'' [''x'']) ''x'') True])
     = Some (Inr (WindowFunction (FirstValue (Field (DatabaseTable ''t'' [''x'']) ''x'')) ''rows''
        None (Some (WindowBoundary (Literal (SInt 0)) True))
        [Field (DatabaseTable ''t'' [''x'']) ''x'']
        [SortKey (Field (DatabaseTable ''t'' [''x'']) ''x'') True]))"
    by simp
  show ?thesis using h first_to_firstvalue_frame [OF h] by blast
qed

end
